theory Spec2Isabelle
  imports Main "HOL-Library.Word"
begin

section \<open>Machine types and status codes\<close>

text \<open>
  The driver is built for 64-bit Windows: \<open>size_t\<close> and \<open>ULONG_PTR\<close> are 64 bits wide,
  \<open>ULONG\<close> and \<open>UINT\<close> are 32 bits, \<open>NTSTATUS\<close> and \<open>LONG\<close> are signed 32-bit values.
  A word is read unsigned with \<open>unat\<close> and signed with \<open>sint\<close>.
\<close>

type_synonym NTSTATUS = "32 word"
type_synonym ULONG = "32 word"
type_synonym LONG = "32 word"
type_synonym size_t = "64 word"

text \<open>\<open>NT_SUCCESS(s)\<close> is \<open>((NTSTATUS)(s)) >= 0\<close> on the signed value.\<close>

definition NT_SUCCESS :: "NTSTATUS \<Rightarrow> bool" where
  "NT_SUCCESS s = (0 \<le> sint s)"

definition STATUS_SUCCESS :: NTSTATUS where
  "STATUS_SUCCESS = 0x00000000"

definition STATUS_TIMEOUT :: NTSTATUS where
  "STATUS_TIMEOUT = 0x00000102"

definition STATUS_INVALID_PARAMETER :: NTSTATUS where
  "STATUS_INVALID_PARAMETER = 0xC000000D"

definition STATUS_INVALID_DEVICE_REQUEST :: NTSTATUS where
  "STATUS_INVALID_DEVICE_REQUEST = 0xC0000010"

definition STATUS_INSUFFICIENT_RESOURCES :: NTSTATUS where
  "STATUS_INSUFFICIENT_RESOURCES = 0xC000009A"

definition STATUS_CANCELLED :: NTSTATUS where
  "STATUS_CANCELLED = 0xC0000120"

definition STATUS_DEVICE_NOT_READY :: NTSTATUS where
  "STATUS_DEVICE_NOT_READY = 0xC00000A3"

section \<open>Device nodes, engines and the calls a handler makes\<close>

text \<open>
  The node kinds the file names in its \<open>switch\<close> statements. \<open>DEVNODE_TYPE_AH2C\<close> and
  \<open>DEVNODE_TYPE_AC2H\<close> are the kinds the name table assigns to the two DMA channel files.
\<close>

datatype DEVNODE_TYPE =
    DEVNODE_TYPE_H2C
  | DEVNODE_TYPE_C2H
  | DEVNODE_TYPE_AH2C
  | DEVNODE_TYPE_AC2H
  | DEVNODE_TYPE_USER
  | DEVNODE_TYPE_CONTROL
  | DEVNODE_TYPE_BYPASS
  | DEVNODE_TYPE_EVENTS
  | ID_DEVNODE_UNKNOWN

datatype DirToDev = H2C | C2H

datatype EngineType = EngineType_MM | EngineType_ST

record ADMA_ENGINE =
  enabled :: bool
  poll :: bool
  engineType :: EngineType

text \<open>
  The union \<open>u\<close> of a file context holds one of: a BAR pointer (\<open>adma->bar[i]\<close>, kept as
  the index \<open>i\<close>), an engine (\<open>&adma->engines[index][dir]\<close>) or a user event
  (\<open>&adma->userEvents[index]\<close>). A context the framework has just allocated is zeroed.
\<close>

datatype node_resource =
    NoResource
  | BarPtr int
  | EnginePtr nat DirToDev
  | EventPtr nat

record FILE_CONTEXT =
  devType :: DEVNODE_TYPE
  u :: node_resource
  queue :: "(DirToDev \<times> nat) option"

record ADMA_DEVICE =
  configBarIdx :: ULONG
  userBarIdx :: LONG
  bypassBarIdx :: LONG
  engines :: "nat \<Rightarrow> DirToDev \<Rightarrow> ADMA_ENGINE"

datatype access_width = Width_UCHAR | Width_USHORT | Width_ULONG

fun width_bytes :: "access_width \<Rightarrow> nat" where
  "width_bytes Width_UCHAR = 1"
| "width_bytes Width_USHORT = 2"
| "width_bytes Width_ULONG = 4"

datatype dma_direction = WdfDmaDirectionReadFromDevice | WdfDmaDirectionWriteToDevice

text \<open>
  A handler is modelled by the sequence of calls it makes on the request, the DMA
  transaction, the hardware and the event, in program order. A call whose result the
  handler tests carries the status it returned.
\<close>

datatype event =
    WdfRequestComplete NTSTATUS
  | WdfRequestCompleteWithInformation NTSTATUS size_t
  | WdfRequestForwardToIoQueue NTSTATUS
  | READ_REGISTER_BUFFER access_width size_t ULONG
  | WRITE_REGISTER_BUFFER access_width size_t ULONG
  | WdfDmaTransactionInitializeUsingRequest dma_direction NTSTATUS
  | WdfRequestMarkCancelableEx NTSTATUS
  | WdfDmaTransactionExecute NTSTATUS
  | EnginePollTransfer NTSTATUS
  | WdfDmaTransactionRelease
  | EngineStop
  | WdfRequestUnmarkCancelable NTSTATUS
  | KeClearEvent_call
  | KeWaitForSingleObject_call NTSTATUS
  | WdfMemoryCopyFromBuffer bool size_t
  | EngineRingSetup
  | EngineDisableInterrupt
  | EngineEnableInterrupt

text \<open>
  What the framework and the hardware answer to the calls of one handler run. Each of
  these calls is made at most once per run, so one field per call is enough.
\<close>

record framework =
  forwardStatus :: NTSTATUS
  outputMemoryStatus :: NTSTATUS
  inputMemoryStatus :: NTSTATUS
  outputBufSize :: size_t
  copyFromBufferStatus :: NTSTATUS
  initStatus :: NTSTATUS
  markCancelableStatus :: NTSTATUS
  executeStatus :: NTSTATUS
  pollStatus :: NTSTATUS
  unmarkStatus :: NTSTATUS
  signalWithinTimeout :: bool

record request =
  DeviceOffset :: size_t
  Length :: size_t

fun is_completion :: "event \<Rightarrow> bool" where
  "is_completion (WdfRequestComplete s) = True"
| "is_completion (WdfRequestCompleteWithInformation s n) = True"
| "is_completion e = False"

fun is_forward :: "event \<Rightarrow> bool" where
  "is_forward (WdfRequestForwardToIoQueue s) = NT_SUCCESS s"
| "is_forward e = False"

text \<open>
  \<open>completions\<close> counts the calls that complete the request; \<open>forwards\<close> counts the
  forwarding calls that the queue accepted (a forwarding call that returns a failure
  status leaves the request with the caller).
\<close>

definition completions :: "event list \<Rightarrow> nat" where
  "completions tr = length (filter is_completion tr)"

definition forwards :: "event list \<Rightarrow> nat" where
  "forwards tr = length (filter is_forward tr)"

definition releases :: "event list \<Rightarrow> nat" where
  "releases tr = length (filter (\<lambda>e. e = WdfDmaTransactionRelease) tr)"

text \<open>The statuses the request is completed with, in order.\<close>

fun completion_statuses :: "event list \<Rightarrow> NTSTATUS list" where
  "completion_statuses [] = []"
| "completion_statuses (WdfRequestComplete s # tr) = s # completion_statuses tr"
| "completion_statuses (WdfRequestCompleteWithInformation s n # tr) = s # completion_statuses tr"
| "completion_statuses (e # tr) = completion_statuses tr"

section \<open>BAR access\<close>

text \<open>
  \<open>ValidateBarParams\<close>: \<open>numBars\<close> and \<open>barLength\<close> are fields of the device whose
  declaration is in a header outside this file; they are taken as parameters, the
  length already converted to \<open>size_t\<close> as the comparison does. The sum
  \<open>offset + length\<close> is computed in \<open>size_t\<close> and wraps.
\<close>

definition ValidateBarParams :: "ULONG \<Rightarrow> (ULONG \<Rightarrow> size_t) \<Rightarrow> ULONG \<Rightarrow> size_t \<Rightarrow> size_t \<Rightarrow> NTSTATUS" where
  "ValidateBarParams numBars barLength nBar offset len =
     (if len = 0 then STATUS_INVALID_DEVICE_REQUEST
      else if nBar \<ge> numBars then STATUS_INVALID_DEVICE_REQUEST
      else if offset + len \<ge> barLength nBar then STATUS_INVALID_DEVICE_REQUEST
      else STATUS_SUCCESS)"

text \<open>
  The element count handed to the register-buffer routines is
  \<open>(ULONG)length / sizeof(T)\<close>: the length is first cut to 32 bits, the division is
  done in \<open>size_t\<close>, and the quotient is passed as a \<open>ULONG\<close>.
\<close>

definition element_count :: "size_t \<Rightarrow> size_t \<Rightarrow> ULONG" where
  "element_count len sz = ucast ((ucast (ucast len :: ULONG) :: size_t) div sz)"

definition ReadBarToRequest :: "framework \<Rightarrow> request \<Rightarrow> NTSTATUS \<times> event list" where
  "ReadBarToRequest fw req =
     (let offset = DeviceOffset req; len = Length req in
      if len = 0 then (STATUS_INVALID_DEVICE_REQUEST, [])
      else let status = outputMemoryStatus fw in
        if \<not> NT_SUCCESS status then (status, [])
        else if len mod 4 = 0 then
          (status, [READ_REGISTER_BUFFER Width_ULONG offset (element_count len 4)])
        else if len mod 2 = 0 then
          (status, [READ_REGISTER_BUFFER Width_USHORT offset (element_count len 2)])
        else
          (status, [READ_REGISTER_BUFFER Width_UCHAR offset (ucast len)]))"

definition WriteBarFromRequest :: "framework \<Rightarrow> request \<Rightarrow> NTSTATUS \<times> event list" where
  "WriteBarFromRequest fw req =
     (let offset = DeviceOffset req; len = Length req in
      if len = 0 then (STATUS_INVALID_DEVICE_REQUEST, [])
      else let status = inputMemoryStatus fw in
        if \<not> NT_SUCCESS status then (status, [])
        else if len mod 4 = 0 then
          (status, [WRITE_REGISTER_BUFFER Width_ULONG offset (element_count len 4)])
        else if len mod 2 = 0 then
          (status, [WRITE_REGISTER_BUFFER Width_USHORT offset (element_count len 2)])
        else
          (status, [WRITE_REGISTER_BUFFER Width_UCHAR offset (ucast len)]))"

section \<open>Waiting on a user event\<close>

text \<open>
  The kernel event behind a user-event node. \<open>KeClearEvent\<close> puts it in the
  not-signaled state. \<open>KeWaitForSingleObject\<close> with a timeout, non-alertable and in
  kernel mode, returns \<open>STATUS_SUCCESS\<close> when the event is signaled at the call or
  becomes so before the timeout runs out, and \<open>STATUS_TIMEOUT\<close> otherwise.
\<close>

record KEVENT =
  signaled :: bool

definition KeClearEvent :: "KEVENT \<Rightarrow> KEVENT" where
  "KeClearEvent ev = ev\<lparr>signaled := False\<rparr>"

definition KeWaitForSingleObject :: "KEVENT \<Rightarrow> bool \<Rightarrow> NTSTATUS" where
  "KeWaitForSingleObject ev arrives =
     (if signaled ev \<or> arrives then STATUS_SUCCESS else STATUS_TIMEOUT)"

text \<open>\<open>sizeof(BOOLEAN)\<close> is 1.\<close>

definition EvtReadUserEvent :: "framework \<Rightarrow> KEVENT \<Rightarrow> size_t \<Rightarrow> NTSTATUS \<times> event list" where
  "EvtReadUserEvent fw ev len =
     (if len \<noteq> 1 then (STATUS_INVALID_PARAMETER, [])
      else
        let ev' = KeClearEvent ev;
            wait = KeWaitForSingleObject ev' (signalWithinTimeout fw);
            eventValue = (if wait = STATUS_TIMEOUT then False else True);
            waited = [KeClearEvent_call, KeWaitForSingleObject_call wait];
            status = outputMemoryStatus fw
        in
        if \<not> NT_SUCCESS status then (status, waited)
        else
          let bufSize = outputBufSize fw in
          if bufSize \<noteq> 1 then (STATUS_INVALID_PARAMETER, waited)
          else
            let status = copyFromBufferStatus fw in
            if \<not> NT_SUCCESS status then (status, waited)
            else (status, waited @ [WdfMemoryCopyFromBuffer eventValue bufSize,
                                    WdfRequestCompleteWithInformation status bufSize]))"

section \<open>Read and write dispatch\<close>

definition EvtIoRead :: "framework \<Rightarrow> KEVENT \<Rightarrow> FILE_CONTEXT \<Rightarrow> request \<Rightarrow> size_t \<Rightarrow> event list" where
  "EvtIoRead fw ev file req len =
     (let (status, tr) =
        (case devType file of
           DEVNODE_TYPE_C2H \<Rightarrow>
             (forwardStatus fw, [WdfRequestForwardToIoQueue (forwardStatus fw)])
         | DEVNODE_TYPE_AC2H \<Rightarrow>
             (forwardStatus fw, [WdfRequestForwardToIoQueue (forwardStatus fw)])
         | DEVNODE_TYPE_USER \<Rightarrow>
             (let (status, tr) = ReadBarToRequest fw req in
              if NT_SUCCESS status
              then (status, tr @ [WdfRequestCompleteWithInformation status len])
              else (status, tr))
         | DEVNODE_TYPE_CONTROL \<Rightarrow>
             (let (status, tr) = ReadBarToRequest fw req in
              if NT_SUCCESS status
              then (status, tr @ [WdfRequestCompleteWithInformation status len])
              else (status, tr))
         | DEVNODE_TYPE_BYPASS \<Rightarrow>
             (let (status, tr) = ReadBarToRequest fw req in
              if NT_SUCCESS status
              then (status, tr @ [WdfRequestCompleteWithInformation status len])
              else (status, tr))
         | DEVNODE_TYPE_EVENTS \<Rightarrow> EvtReadUserEvent fw ev len
         | _ \<Rightarrow> (STATUS_INVALID_DEVICE_REQUEST, []))
      in if \<not> NT_SUCCESS status then tr @ [WdfRequestComplete status] else tr)"

definition EvtIoWrite :: "framework \<Rightarrow> FILE_CONTEXT \<Rightarrow> request \<Rightarrow> size_t \<Rightarrow> event list" where
  "EvtIoWrite fw file req len =
     (let (status, tr) =
        (case devType file of
           DEVNODE_TYPE_H2C \<Rightarrow>
             (forwardStatus fw, [WdfRequestForwardToIoQueue (forwardStatus fw)])
         | DEVNODE_TYPE_AH2C \<Rightarrow>
             (forwardStatus fw, [WdfRequestForwardToIoQueue (forwardStatus fw)])
         | DEVNODE_TYPE_USER \<Rightarrow>
             (let (status, tr) = WriteBarFromRequest fw req in
              if NT_SUCCESS status
              then (status, tr @ [WdfRequestCompleteWithInformation status len])
              else (status, tr))
         | DEVNODE_TYPE_CONTROL \<Rightarrow>
             (let (status, tr) = WriteBarFromRequest fw req in
              if NT_SUCCESS status
              then (status, tr @ [WdfRequestCompleteWithInformation status len])
              else (status, tr))
         | DEVNODE_TYPE_BYPASS \<Rightarrow>
             (let (status, tr) = WriteBarFromRequest fw req in
              if NT_SUCCESS status
              then (status, tr @ [WdfRequestCompleteWithInformation status len])
              else (status, tr))
         | _ \<Rightarrow> (STATUS_INVALID_DEVICE_REQUEST, []))
      in if \<not> NT_SUCCESS status then tr @ [WdfRequestComplete status] else tr)"

section \<open>DMA submission and cancellation\<close>

text \<open>
  \<open>ErrExit\<close> of both submission handlers: release the transaction, then complete the
  request with the failing status.
\<close>

definition ErrExit :: "NTSTATUS \<Rightarrow> event list" where
  "ErrExit status = [WdfDmaTransactionRelease, WdfRequestComplete status]"

definition EvtIoWriteDma :: "framework \<Rightarrow> ADMA_ENGINE \<Rightarrow> event list" where
  "EvtIoWriteDma fw engine =
     (let status = initStatus fw;
          tr = [WdfDmaTransactionInitializeUsingRequest WdfDmaDirectionWriteToDevice status]
      in
      if \<not> NT_SUCCESS status then tr @ ErrExit status
      else
        let status = markCancelableStatus fw;
            tr = tr @ [WdfRequestMarkCancelableEx status]
        in
        if \<not> NT_SUCCESS status then tr @ ErrExit status
        else
          let status = executeStatus fw;
              tr = tr @ [WdfDmaTransactionExecute status]
          in
          if \<not> NT_SUCCESS status then tr @ ErrExit status
          else if poll engine then tr @ [EnginePollTransfer (pollStatus fw)]
          else tr)"

text \<open>The polling block of the read handler is compiled out (\<open>#if 0\<close>).\<close>

definition EvtIoReadDma :: "framework \<Rightarrow> ADMA_ENGINE \<Rightarrow> event list" where
  "EvtIoReadDma fw engine =
     (let status = initStatus fw;
          tr = [WdfDmaTransactionInitializeUsingRequest WdfDmaDirectionReadFromDevice status]
      in
      if \<not> NT_SUCCESS status then tr @ ErrExit status
      else
        let status = markCancelableStatus fw;
            tr = tr @ [WdfRequestMarkCancelableEx status]
        in
        if \<not> NT_SUCCESS status then tr @ ErrExit status
        else
          let status = executeStatus fw;
              tr = tr @ [WdfDmaTransactionExecute status]
          in
          if \<not> NT_SUCCESS status then tr @ ErrExit status
          else tr)"

definition EvtCancelDma :: "framework \<Rightarrow> event list" where
  "EvtCancelDma fw =
     [EngineStop, WdfRequestUnmarkCancelable (unmarkStatus fw),
      WdfDmaTransactionRelease, WdfRequestComplete STATUS_CANCELLED]"

fun is_poll :: "event \<Rightarrow> bool" where
  "is_poll (EnginePollTransfer s) = True"
| "is_poll e = False"

section \<open>Opening a device node\<close>

text \<open>
  Modelled from the spec: the four file-name constants \<open>ADMA_FILE_H2C_0\<close>,
  \<open>ADMA_FILE_C2H_0\<close>, \<open>ADMA_FILE_USER\<close> and \<open>ADMA_FILE_CONTROL\<close> are defined in a header
  that is not part of the sources at hand; they are given the names of the spec's
  table, \<open>h2c_0\<close>, \<open>c2h_0\<close>, \<open>user\<close> and \<open>control\<close>.
\<close>

definition ADMA_FILE_H2C_0 :: string where
  "ADMA_FILE_H2C_0 = ''h2c_0''"

definition ADMA_FILE_C2H_0 :: string where
  "ADMA_FILE_C2H_0 = ''c2h_0''"

definition ADMA_FILE_USER :: string where
  "ADMA_FILE_USER = ''user''"

definition ADMA_FILE_CONTROL :: string where
  "ADMA_FILE_CONTROL = ''control''"

definition FileNameLUT :: "(DEVNODE_TYPE \<times> string \<times> ULONG) list" where
  "FileNameLUT =
     [(DEVNODE_TYPE_AH2C, ADMA_FILE_H2C_0, 0),
      (DEVNODE_TYPE_AC2H, ADMA_FILE_C2H_0, 0),
      (DEVNODE_TYPE_USER, ADMA_FILE_USER, 0),
      (DEVNODE_TYPE_CONTROL, ADMA_FILE_CONTROL, 0)]"

text \<open>
  The loop of \<open>GetDevNodeType\<close> over the table. A file name is the list of its
  characters up to the terminator, so \<open>wcscmp\<close> returning 0 is equality of the lists.
  When no entry matches, the kind is set to unknown and \<open>*index\<close> is left as it was.
\<close>

fun GetDevNodeType_loop ::
  "(DEVNODE_TYPE \<times> string \<times> ULONG) list \<Rightarrow> string \<Rightarrow> FILE_CONTEXT \<Rightarrow> ULONG \<Rightarrow> FILE_CONTEXT \<times> ULONG" where
  "GetDevNodeType_loop [] fileName file index = (file\<lparr>devType := ID_DEVNODE_UNKNOWN\<rparr>, index)"
| "GetDevNodeType_loop ((t, wstr, channel) # rest) fileName file index =
     (if fileName = wstr then (file\<lparr>devType := t\<rparr>, channel)
      else GetDevNodeType_loop rest fileName file index)"

definition GetDevNodeType :: "string \<Rightarrow> FILE_CONTEXT \<Rightarrow> ULONG \<Rightarrow> FILE_CONTEXT \<times> ULONG" where
  "GetDevNodeType fileName file index = GetDevNodeType_loop FileNameLUT fileName file index"

text \<open>
  The case \<open>DEVNODE_TYPE_H2C\<close>/\<open>DEVNODE_TYPE_C2H\<close> of \<open>EvtDeviceFileCreate\<close>: after the
  enabled test it sets up the receive ring of a streaming C2H engine, binds engine and
  queue, and switches the interrupt according to the poll flag.
\<close>

definition open_H2C_C2H :: "ADMA_DEVICE \<Rightarrow> FILE_CONTEXT \<Rightarrow> ULONG \<Rightarrow> FILE_CONTEXT \<times> event list" where
  "open_H2C_C2H adma devNode index =
     (let dir = (if devType devNode = DEVNODE_TYPE_H2C then H2C else C2H);
          engine = engines adma (unat index) dir
      in
      if \<not> enabled engine then (devNode, [WdfRequestComplete STATUS_INVALID_PARAMETER])
      else
        (devNode\<lparr>u := EnginePtr (unat index) dir, queue := Some (dir, unat index)\<rparr>,
         (if engineType engine = EngineType_ST \<and> dir = C2H then [EngineRingSetup] else [])
         @ (if poll engine then [EngineDisableInterrupt] else [EngineEnableInterrupt])
         @ [WdfRequestComplete STATUS_SUCCESS]))"

text \<open>
  The case \<open>DEVNODE_TYPE_AH2C\<close>/\<open>DEVNODE_TYPE_AC2H\<close>: the enabled test and the binding
  only; the interrupt switching is compiled out (\<open>#if 0\<close>).
\<close>

definition open_AH2C_AC2H :: "ADMA_DEVICE \<Rightarrow> FILE_CONTEXT \<Rightarrow> ULONG \<Rightarrow> FILE_CONTEXT \<times> event list" where
  "open_AH2C_AC2H adma devNode index =
     (let dir = (if devType devNode = DEVNODE_TYPE_AH2C then H2C else C2H);
          engine = engines adma (unat index) dir
      in
      if \<not> enabled engine then (devNode, [WdfRequestComplete STATUS_INVALID_PARAMETER])
      else
        (devNode\<lparr>u := EnginePtr (unat index) dir, queue := Some (dir, unat index)\<rparr>,
         [WdfRequestComplete STATUS_SUCCESS]))"

definition EvtDeviceFileCreate :: "ADMA_DEVICE \<Rightarrow> string option \<Rightarrow> FILE_CONTEXT \<Rightarrow> FILE_CONTEXT \<times> event list" where
  "EvtDeviceFileCreate adma fileName devNode0 =
     (case fileName of
        None \<Rightarrow> (devNode0, [WdfRequestComplete STATUS_INVALID_PARAMETER])
      | Some name \<Rightarrow>
          let (devNode, index) = GetDevNodeType name devNode0 0 in
          if devType devNode = ID_DEVNODE_UNKNOWN
          then (devNode, [WdfRequestComplete STATUS_INVALID_PARAMETER])
          else
            (case devType devNode of
               DEVNODE_TYPE_CONTROL \<Rightarrow>
                 (devNode\<lparr>u := BarPtr (uint (configBarIdx adma))\<rparr>,
                  [WdfRequestComplete STATUS_SUCCESS])
             | DEVNODE_TYPE_USER \<Rightarrow>
                 if sint (userBarIdx adma) < 0
                 then (devNode, [WdfRequestComplete STATUS_INVALID_PARAMETER])
                 else (devNode\<lparr>u := BarPtr (sint (userBarIdx adma))\<rparr>,
                       [WdfRequestComplete STATUS_SUCCESS])
             | DEVNODE_TYPE_BYPASS \<Rightarrow>
                 if sint (bypassBarIdx adma) < 0
                 then (devNode, [WdfRequestComplete STATUS_INVALID_PARAMETER])
                 else (devNode\<lparr>u := BarPtr (sint (bypassBarIdx adma))\<rparr>,
                       [WdfRequestComplete STATUS_SUCCESS])
             | DEVNODE_TYPE_H2C \<Rightarrow> open_H2C_C2H adma devNode index
             | DEVNODE_TYPE_C2H \<Rightarrow> open_H2C_C2H adma devNode index
             | DEVNODE_TYPE_AH2C \<Rightarrow> open_AH2C_AC2H adma devNode index
             | DEVNODE_TYPE_AC2H \<Rightarrow> open_AH2C_AC2H adma devNode index
             | DEVNODE_TYPE_EVENTS \<Rightarrow>
                 (devNode\<lparr>u := EventPtr (unat index)\<rparr>, [WdfRequestComplete STATUS_SUCCESS])
             | _ \<Rightarrow> (devNode, [WdfRequestComplete STATUS_SUCCESS])))"

section \<open>From the open to the submission handler\<close>

text \<open>
  Modelled from the spec: the queue of a direction and channel is bound to the engine of
  that direction and channel (the binding is made outside this file), and a node exists
  for a client only once it has been opened. The path itself is the one the flow
  diagram at the top of the file gives: the open request goes to
  \<open>EvtDeviceFileCreate\<close>; when it was completed with a success status, a write on the
  file goes to \<open>EvtIoWrite\<close> and a read to \<open>EvtIoRead\<close>; a request the dispatch forwarded
  to the node's queue ends up in \<open>EvtIoWriteDma\<close> or \<open>EvtIoReadDma\<close> with the engine of
  that queue. An open completed with a failure status gives the client no file, so
  nothing follows it.
\<close>

fun create_status :: "event list \<Rightarrow> NTSTATUS option" where
  "create_status [] = None"
| "create_status (WdfRequestComplete s # tr) = Some s"
| "create_status (e # tr) = create_status tr"

definition open_then_write ::
  "framework \<Rightarrow> ADMA_DEVICE \<Rightarrow> string \<Rightarrow> FILE_CONTEXT \<Rightarrow> request \<Rightarrow> size_t \<Rightarrow> event list" where
  "open_then_write fw adma name devNode0 req len =
     (let (devNode, opened) = EvtDeviceFileCreate adma (Some name) devNode0 in
      case create_status opened of
        None \<Rightarrow> opened
      | Some s \<Rightarrow>
          if \<not> NT_SUCCESS s then opened
          else
            let written = EvtIoWrite fw devNode req len in
            if forwards written = 0 then opened @ written
            else (case queue devNode of
                    None \<Rightarrow> opened @ written
                  | Some (dir, index) \<Rightarrow>
                      opened @ written @ EvtIoWriteDma fw (engines adma index dir)))"

definition open_then_read ::
  "framework \<Rightarrow> KEVENT \<Rightarrow> ADMA_DEVICE \<Rightarrow> string \<Rightarrow> FILE_CONTEXT \<Rightarrow> request \<Rightarrow> size_t \<Rightarrow> event list" where
  "open_then_read fw ev adma name devNode0 req len =
     (let (devNode, opened) = EvtDeviceFileCreate adma (Some name) devNode0 in
      case create_status opened of
        None \<Rightarrow> opened
      | Some s \<Rightarrow>
          if \<not> NT_SUCCESS s then opened
          else
            let got = EvtIoRead fw ev devNode req len in
            if forwards got = 0 then opened @ got
            else (case queue devNode of
                    None \<Rightarrow> opened @ got
                  | Some (dir, index) \<Rightarrow>
                      opened @ got @ EvtIoReadDma fw (engines adma index dir)))"

section \<open>The granularity rule in the words of the specification\<close>

text \<open>
  The widest of the units of 4, 2 and 1 bytes that evenly divides the length, written
  from the specification's sentence on the natural number, for comparison with the
  tests the two BAR routines make on the machine word.
\<close>

definition spec_granularity :: "nat \<Rightarrow> access_width" where
  "spec_granularity n =
     (if 4 dvd n then Width_ULONG else if 2 dvd n then Width_USHORT else Width_UCHAR)"

section \<open>Concrete inputs\<close>

text \<open>
  A run in which every framework call succeeds and the output buffer holds one byte; an
  event that is not signaled and receives no signal; a zeroed file context; a device
  with one 64 KiB BAR.
\<close>

definition fw_all_success :: framework where
  "fw_all_success =
     \<lparr>forwardStatus = STATUS_SUCCESS, outputMemoryStatus = STATUS_SUCCESS,
      inputMemoryStatus = STATUS_SUCCESS, outputBufSize = 1,
      copyFromBufferStatus = STATUS_SUCCESS, initStatus = STATUS_SUCCESS,
      markCancelableStatus = STATUS_SUCCESS, executeStatus = STATUS_SUCCESS,
      pollStatus = STATUS_SUCCESS, unmarkStatus = STATUS_SUCCESS,
      signalWithinTimeout = False\<rparr>"

definition quiet_event :: KEVENT where
  "quiet_event = \<lparr>signaled = False\<rparr>"

definition fresh_context :: FILE_CONTEXT where
  "fresh_context = \<lparr>devType = ID_DEVNODE_UNKNOWN, u = NoResource, queue = None\<rparr>"

definition control_node :: FILE_CONTEXT where
  "control_node = \<lparr>devType = DEVNODE_TYPE_CONTROL, u = BarPtr 0, queue = None\<rparr>"

definition events_node :: FILE_CONTEXT where
  "events_node = \<lparr>devType = DEVNODE_TYPE_EVENTS, u = EventPtr 0, queue = None\<rparr>"

definition bar_64K :: "ULONG \<Rightarrow> size_t" where
  "bar_64K nBar = 0x10000"

definition disabled_engine :: ADMA_ENGINE where
  "disabled_engine = \<lparr>enabled = False, poll = False, engineType = EngineType_MM\<rparr>"

definition polling_engine :: ADMA_ENGINE where
  "polling_engine = \<lparr>enabled = True, poll = True, engineType = EngineType_MM\<rparr>"

definition all_disabled :: "nat \<Rightarrow> DirToDev \<Rightarrow> ADMA_ENGINE" where
  "all_disabled index dir = disabled_engine"

definition adma_all_disabled :: ADMA_DEVICE where
  "adma_all_disabled =
     \<lparr>configBarIdx = 0, userBarIdx = 1, bypassBarIdx = -1, engines = all_disabled\<rparr>"

text \<open>A device whose H2C engines are disabled while its C2H engines are enabled.\<close>

definition h2c_disabled_only :: "nat \<Rightarrow> DirToDev \<Rightarrow> ADMA_ENGINE" where
  "h2c_disabled_only index dir = (if dir = H2C then disabled_engine else polling_engine)"

definition adma_h2c_disabled :: ADMA_DEVICE where
  "adma_h2c_disabled =
     \<lparr>configBarIdx = 0, userBarIdx = 1, bypassBarIdx = -1, engines = h2c_disabled_only\<rparr>"

section \<open>Status facts\<close>

lemma NT_SUCCESS_STATUS_SUCCESS: "NT_SUCCESS STATUS_SUCCESS"
  by (simp add: NT_SUCCESS_def STATUS_SUCCESS_def)

lemma NT_SUCCESS_STATUS_TIMEOUT: "NT_SUCCESS STATUS_TIMEOUT"
  by (simp add: NT_SUCCESS_def STATUS_TIMEOUT_def)

lemma not_NT_SUCCESS_INVALID_PARAMETER: "\<not> NT_SUCCESS STATUS_INVALID_PARAMETER"
  by (simp add: NT_SUCCESS_def STATUS_INVALID_PARAMETER_def)

lemma not_NT_SUCCESS_INVALID_DEVICE_REQUEST: "\<not> NT_SUCCESS STATUS_INVALID_DEVICE_REQUEST"
  by (simp add: NT_SUCCESS_def STATUS_INVALID_DEVICE_REQUEST_def)

lemma not_NT_SUCCESS_INSUFFICIENT_RESOURCES: "\<not> NT_SUCCESS STATUS_INSUFFICIENT_RESOURCES"
  by (simp add: NT_SUCCESS_def STATUS_INSUFFICIENT_RESOURCES_def)

lemma not_NT_SUCCESS_CANCELLED: "\<not> NT_SUCCESS STATUS_CANCELLED"
  by (simp add: NT_SUCCESS_def STATUS_CANCELLED_def)

lemma STATUS_SUCCESS_neq_TIMEOUT: "STATUS_SUCCESS \<noteq> STATUS_TIMEOUT"
  by (simp add: STATUS_SUCCESS_def STATUS_TIMEOUT_def)

section \<open>Counting completions, forwards and releases\<close>

lemma completions_append: "completions (xs @ ys) = completions xs + completions ys"
  by (simp add: completions_def)

lemma forwards_append: "forwards (xs @ ys) = forwards xs + forwards ys"
  by (simp add: forwards_def)

lemma ReadBarToRequest_counts:
  "completions (snd (ReadBarToRequest fw req)) = 0 \<and> forwards (snd (ReadBarToRequest fw req)) = 0"
  by (simp add: ReadBarToRequest_def Let_def completions_def forwards_def)

lemma WriteBarFromRequest_counts:
  "completions (snd (WriteBarFromRequest fw req)) = 0
   \<and> forwards (snd (WriteBarFromRequest fw req)) = 0"
  by (simp add: WriteBarFromRequest_def Let_def completions_def forwards_def)

lemma EvtReadUserEvent_counts:
  "completions (snd (EvtReadUserEvent fw ev len)) =
     (if NT_SUCCESS (fst (EvtReadUserEvent fw ev len)) then 1 else 0)
   \<and> forwards (snd (EvtReadUserEvent fw ev len)) = 0"
  by (simp add: EvtReadUserEvent_def Let_def completions_def forwards_def
      not_NT_SUCCESS_INVALID_PARAMETER)

text \<open>
  The common tail of both dispatch routines completes the request when the status is a
  failure. Two ways of reaching it leave exactly one completion or accepted forward:
  nothing done yet on failure and one completion on success, or one forwarding call
  whose status is the one tested.
\<close>

lemma tail_after_direct:
  assumes "completions tr = (if NT_SUCCESS status then 1 else 0)" and "forwards tr = 0"
  shows "completions (if \<not> NT_SUCCESS status then tr @ [WdfRequestComplete status] else tr)
       + forwards (if \<not> NT_SUCCESS status then tr @ [WdfRequestComplete status] else tr) = 1"
proof (cases "NT_SUCCESS status")
  case True
  with assms show ?thesis by simp
next
  case False
  have "completions [WdfRequestComplete status] = 1" "forwards [WdfRequestComplete status] = 0"
    by (simp_all add: completions_def forwards_def)
  with False assms show ?thesis by (simp add: completions_append forwards_append)
qed

lemma tail_after_forward:
  "completions (if \<not> NT_SUCCESS status
                then [WdfRequestForwardToIoQueue status] @ [WdfRequestComplete status]
                else [WdfRequestForwardToIoQueue status])
   + forwards (if \<not> NT_SUCCESS status
               then [WdfRequestForwardToIoQueue status] @ [WdfRequestComplete status]
               else [WdfRequestForwardToIoQueue status]) = 1"
  by (simp add: completions_def forwards_def)

lemma EvtIoRead_bar:
  "completions (let (status, tr) =
                  (let (status, tr) = ReadBarToRequest fw req in
                   if NT_SUCCESS status
                   then (status, tr @ [WdfRequestCompleteWithInformation status len])
                   else (status, tr))
                in if \<not> NT_SUCCESS status then tr @ [WdfRequestComplete status] else tr)
   + forwards (let (status, tr) =
                 (let (status, tr) = ReadBarToRequest fw req in
                  if NT_SUCCESS status
                  then (status, tr @ [WdfRequestCompleteWithInformation status len])
                  else (status, tr))
               in if \<not> NT_SUCCESS status then tr @ [WdfRequestComplete status] else tr) = 1"
proof -
  obtain st tr where r: "ReadBarToRequest fw req = (st, tr)" by (cases "ReadBarToRequest fw req")
  with ReadBarToRequest_counts [of fw req] have z: "completions tr = 0" "forwards tr = 0"
    by simp_all
  show ?thesis
  proof (cases "NT_SUCCESS st")
    case True
    with r z show ?thesis by (simp add: completions_append forwards_append completions_def forwards_def)
  next
    case False
    with r z show ?thesis by (simp add: completions_append forwards_append completions_def forwards_def)
  qed
qed

lemma EvtIoWrite_bar:
  "completions (let (status, tr) =
                  (let (status, tr) = WriteBarFromRequest fw req in
                   if NT_SUCCESS status
                   then (status, tr @ [WdfRequestCompleteWithInformation status len])
                   else (status, tr))
                in if \<not> NT_SUCCESS status then tr @ [WdfRequestComplete status] else tr)
   + forwards (let (status, tr) =
                 (let (status, tr) = WriteBarFromRequest fw req in
                  if NT_SUCCESS status
                  then (status, tr @ [WdfRequestCompleteWithInformation status len])
                  else (status, tr))
               in if \<not> NT_SUCCESS status then tr @ [WdfRequestComplete status] else tr) = 1"
proof -
  obtain st tr where r: "WriteBarFromRequest fw req = (st, tr)"
    by (cases "WriteBarFromRequest fw req")
  with WriteBarFromRequest_counts [of fw req] have z: "completions tr = 0" "forwards tr = 0"
    by simp_all
  show ?thesis
  proof (cases "NT_SUCCESS st")
    case True
    with r z show ?thesis by (simp add: completions_append forwards_append completions_def forwards_def)
  next
    case False
    with r z show ?thesis by (simp add: completions_append forwards_append completions_def forwards_def)
  qed
qed

lemma EvtIoRead_events:
  "completions (let (status, tr) = EvtReadUserEvent fw ev len
                in if \<not> NT_SUCCESS status then tr @ [WdfRequestComplete status] else tr)
   + forwards (let (status, tr) = EvtReadUserEvent fw ev len
               in if \<not> NT_SUCCESS status then tr @ [WdfRequestComplete status] else tr) = 1"
proof -
  obtain st tr where r: "EvtReadUserEvent fw ev len = (st, tr)"
    by (cases "EvtReadUserEvent fw ev len")
  with EvtReadUserEvent_counts [of fw ev len]
  have "completions tr = (if NT_SUCCESS st then 1 else 0)" "forwards tr = 0" by simp_all
  then show ?thesis using r tail_after_direct [of tr st] by simp
qed

lemma EvtIoRead_once:
  "completions (EvtIoRead fw ev file req len) + forwards (EvtIoRead fw ev file req len) = 1"
proof (cases "devType file")
  case DEVNODE_TYPE_C2H
  then show ?thesis using tail_after_forward [of "forwardStatus fw"] by (simp add: EvtIoRead_def)
next
  case DEVNODE_TYPE_AC2H
  then show ?thesis using tail_after_forward [of "forwardStatus fw"] by (simp add: EvtIoRead_def)
next
  case DEVNODE_TYPE_USER
  then show ?thesis using EvtIoRead_bar [of fw req len] by (simp add: EvtIoRead_def)
next
  case DEVNODE_TYPE_CONTROL
  then show ?thesis using EvtIoRead_bar [of fw req len] by (simp add: EvtIoRead_def)
next
  case DEVNODE_TYPE_BYPASS
  then show ?thesis using EvtIoRead_bar [of fw req len] by (simp add: EvtIoRead_def)
next
  case DEVNODE_TYPE_EVENTS
  then show ?thesis using EvtIoRead_events [of fw ev len] by (simp add: EvtIoRead_def)
qed (simp_all add: EvtIoRead_def not_NT_SUCCESS_INVALID_DEVICE_REQUEST completions_def
      forwards_def)

lemma EvtIoWrite_once:
  "completions (EvtIoWrite fw file req len) + forwards (EvtIoWrite fw file req len) = 1"
proof (cases "devType file")
  case DEVNODE_TYPE_H2C
  then show ?thesis using tail_after_forward [of "forwardStatus fw"] by (simp add: EvtIoWrite_def)
next
  case DEVNODE_TYPE_AH2C
  then show ?thesis using tail_after_forward [of "forwardStatus fw"] by (simp add: EvtIoWrite_def)
next
  case DEVNODE_TYPE_USER
  then show ?thesis using EvtIoWrite_bar [of fw req len] by (simp add: EvtIoWrite_def)
next
  case DEVNODE_TYPE_CONTROL
  then show ?thesis using EvtIoWrite_bar [of fw req len] by (simp add: EvtIoWrite_def)
next
  case DEVNODE_TYPE_BYPASS
  then show ?thesis using EvtIoWrite_bar [of fw req len] by (simp add: EvtIoWrite_def)
qed (simp_all add: EvtIoWrite_def not_NT_SUCCESS_INVALID_DEVICE_REQUEST completions_def
      forwards_def)

text \<open>
  C2. For every node kind, every request and every answer of the framework, the read
  dispatch and the write dispatch each leave the request either completed exactly once
  or accepted by a queue exactly once: the two counts add up to one, so it is never
  both and never neither, on the error paths as well.
\<close>

theorem dispatch_completes_or_forwards_exactly_once:
  "completions (EvtIoRead fw ev file req len) + forwards (EvtIoRead fw ev file req len) = 1
   \<and> completions (EvtIoWrite fw file req len) + forwards (EvtIoWrite fw file req len) = 1"
  using EvtIoRead_once [of fw ev "file" req len] EvtIoWrite_once [of fw "file" req len] by simp

section \<open>Failure after the transaction was initialised\<close>

text \<open>
  C4. When the transaction was initialised and marking the request cancelable or
  executing the transaction then fails, the write handler and the read handler both end
  with the release of the transaction followed at once by the completion of the
  request with a failure status; before these two calls there is no release and no
  completion, so the transaction is released once, before the only completion.
\<close>

theorem setup_failure_releases_then_completes:
  assumes "NT_SUCCESS (initStatus fw)"
    and "\<not> NT_SUCCESS (markCancelableStatus fw) \<or> \<not> NT_SUCCESS (executeStatus fw)"
  shows "(\<exists>pre st. EvtIoWriteDma fw engine =
                     pre @ [WdfDmaTransactionRelease, WdfRequestComplete st]
            \<and> \<not> NT_SUCCESS st \<and> releases pre = 0 \<and> completions pre = 0)
       \<and> (\<exists>pre st. EvtIoReadDma fw engine =
                     pre @ [WdfDmaTransactionRelease, WdfRequestComplete st]
            \<and> \<not> NT_SUCCESS st \<and> releases pre = 0 \<and> completions pre = 0)"
proof (cases "NT_SUCCESS (markCancelableStatus fw)")
  case False
  let ?w = "[WdfDmaTransactionInitializeUsingRequest WdfDmaDirectionWriteToDevice (initStatus fw),
             WdfRequestMarkCancelableEx (markCancelableStatus fw)]"
  let ?r = "[WdfDmaTransactionInitializeUsingRequest WdfDmaDirectionReadFromDevice (initStatus fw),
             WdfRequestMarkCancelableEx (markCancelableStatus fw)]"
  have w: "EvtIoWriteDma fw engine =
             ?w @ [WdfDmaTransactionRelease, WdfRequestComplete (markCancelableStatus fw)]"
    using assms(1) False by (simp add: EvtIoWriteDma_def ErrExit_def Let_def)
  have r: "EvtIoReadDma fw engine =
             ?r @ [WdfDmaTransactionRelease, WdfRequestComplete (markCancelableStatus fw)]"
    using assms(1) False by (simp add: EvtIoReadDma_def ErrExit_def Let_def)
  have "releases ?w = 0 \<and> completions ?w = 0 \<and> releases ?r = 0 \<and> completions ?r = 0"
    by (simp add: releases_def completions_def)
  with w r False show ?thesis by blast
next
  case True
  with assms(2) have ex: "\<not> NT_SUCCESS (executeStatus fw)" by simp
  let ?w = "[WdfDmaTransactionInitializeUsingRequest WdfDmaDirectionWriteToDevice (initStatus fw),
             WdfRequestMarkCancelableEx (markCancelableStatus fw),
             WdfDmaTransactionExecute (executeStatus fw)]"
  let ?r = "[WdfDmaTransactionInitializeUsingRequest WdfDmaDirectionReadFromDevice (initStatus fw),
             WdfRequestMarkCancelableEx (markCancelableStatus fw),
             WdfDmaTransactionExecute (executeStatus fw)]"
  have w: "EvtIoWriteDma fw engine =
             ?w @ [WdfDmaTransactionRelease, WdfRequestComplete (executeStatus fw)]"
    using assms(1) True ex by (simp add: EvtIoWriteDma_def ErrExit_def Let_def)
  have r: "EvtIoReadDma fw engine =
             ?r @ [WdfDmaTransactionRelease, WdfRequestComplete (executeStatus fw)]"
    using assms(1) True ex by (simp add: EvtIoReadDma_def ErrExit_def Let_def)
  have "releases ?w = 0 \<and> completions ?w = 0 \<and> releases ?r = 0 \<and> completions ?r = 0"
    by (simp add: releases_def completions_def)
  with w r ex show ?thesis by blast
qed

theorem setup_failure_releases_then_completes_witness:
  "NT_SUCCESS (initStatus (fw_all_success\<lparr>executeStatus := STATUS_INSUFFICIENT_RESOURCES\<rparr>))
   \<and> \<not> NT_SUCCESS
         (executeStatus (fw_all_success\<lparr>executeStatus := STATUS_INSUFFICIENT_RESOURCES\<rparr>))
   \<and> (\<exists>pre st. EvtIoWriteDma (fw_all_success\<lparr>executeStatus := STATUS_INSUFFICIENT_RESOURCES\<rparr>)
                   polling_engine
          = pre @ [WdfDmaTransactionRelease, WdfRequestComplete st]
          \<and> \<not> NT_SUCCESS st \<and> releases pre = 0 \<and> completions pre = 0)
   \<and> (\<exists>pre st. EvtIoReadDma (fw_all_success\<lparr>executeStatus := STATUS_INSUFFICIENT_RESOURCES\<rparr>)
                   polling_engine
          = pre @ [WdfDmaTransactionRelease, WdfRequestComplete st]
          \<and> \<not> NT_SUCCESS st \<and> releases pre = 0 \<and> completions pre = 0)"
proof -
  let ?fw = "fw_all_success\<lparr>executeStatus := STATUS_INSUFFICIENT_RESOURCES\<rparr>"
  have i: "NT_SUCCESS (initStatus ?fw)"
    by (simp add: fw_all_success_def NT_SUCCESS_STATUS_SUCCESS)
  have e: "\<not> NT_SUCCESS (executeStatus ?fw)"
    by (simp add: not_NT_SUCCESS_INSUFFICIENT_RESOURCES)
  from e have d: "\<not> NT_SUCCESS (markCancelableStatus ?fw) \<or> \<not> NT_SUCCESS (executeStatus ?fw)" ..
  show ?thesis
    using i e setup_failure_releases_then_completes [OF i d, of polling_engine] by blast
qed

section \<open>Polling\<close>

text \<open>
  C6, as the code has it. When initialising, marking cancelable and executing all
  succeed, the write handler calls \<open>EnginePollTransfer\<close> once, after the execute, exactly
  when the engine's poll flag is set, and makes no completion call of its own; the read
  handler makes the same three calls and never polls, whatever the poll flag.
\<close>

theorem poll_only_in_write_handler:
  assumes "NT_SUCCESS (initStatus fw)" and "NT_SUCCESS (markCancelableStatus fw)"
    and "NT_SUCCESS (executeStatus fw)"
  shows "EvtIoWriteDma fw engine =
           [WdfDmaTransactionInitializeUsingRequest WdfDmaDirectionWriteToDevice (initStatus fw),
            WdfRequestMarkCancelableEx (markCancelableStatus fw),
            WdfDmaTransactionExecute (executeStatus fw)]
           @ (if poll engine then [EnginePollTransfer (pollStatus fw)] else [])
       \<and> EvtIoReadDma fw engine =
           [WdfDmaTransactionInitializeUsingRequest WdfDmaDirectionReadFromDevice (initStatus fw),
            WdfRequestMarkCancelableEx (markCancelableStatus fw),
            WdfDmaTransactionExecute (executeStatus fw)]"
  using assms by (simp add: EvtIoWriteDma_def EvtIoReadDma_def Let_def)

theorem poll_only_in_write_handler_witness:
  "NT_SUCCESS (initStatus fw_all_success) \<and> NT_SUCCESS (markCancelableStatus fw_all_success)
   \<and> NT_SUCCESS (executeStatus fw_all_success)
   \<and> EvtIoWriteDma fw_all_success polling_engine =
       [WdfDmaTransactionInitializeUsingRequest WdfDmaDirectionWriteToDevice STATUS_SUCCESS,
        WdfRequestMarkCancelableEx STATUS_SUCCESS,
        WdfDmaTransactionExecute STATUS_SUCCESS,
        EnginePollTransfer STATUS_SUCCESS]
   \<and> EvtIoReadDma fw_all_success polling_engine =
       [WdfDmaTransactionInitializeUsingRequest WdfDmaDirectionReadFromDevice STATUS_SUCCESS,
        WdfRequestMarkCancelableEx STATUS_SUCCESS,
        WdfDmaTransactionExecute STATUS_SUCCESS]"
proof -
  have i: "NT_SUCCESS (initStatus fw_all_success)"
    by (simp add: fw_all_success_def NT_SUCCESS_STATUS_SUCCESS)
  have m: "NT_SUCCESS (markCancelableStatus fw_all_success)"
    by (simp add: fw_all_success_def NT_SUCCESS_STATUS_SUCCESS)
  have e: "NT_SUCCESS (executeStatus fw_all_success)"
    by (simp add: fw_all_success_def NT_SUCCESS_STATUS_SUCCESS)
  have v: "initStatus fw_all_success = STATUS_SUCCESS"
    "markCancelableStatus fw_all_success = STATUS_SUCCESS"
    "executeStatus fw_all_success = STATUS_SUCCESS" "pollStatus fw_all_success = STATUS_SUCCESS"
    "poll polling_engine"
    by (simp_all add: fw_all_success_def polling_engine_def)
  show ?thesis
    using i m e poll_only_in_write_handler [OF i m e, of polling_engine] by (simp add: v)
qed

text \<open>
  The read handler on an engine in poll mode, every call succeeding: it returns after
  the execute without polling and without completing the request.
\<close>

theorem read_handler_does_not_poll:
  "poll polling_engine
   \<and> length (filter is_poll (EvtIoReadDma fw_all_success polling_engine)) = 0
   \<and> completions (EvtIoReadDma fw_all_success polling_engine) = 0"
  by (simp add: EvtIoReadDma_def fw_all_success_def NT_SUCCESS_STATUS_SUCCESS completions_def
      polling_engine_def Let_def)

section \<open>Disabled engines\<close>

lemma GetDevNodeType_eq:
  "GetDevNodeType name fctx index =
     (if name = ''h2c_0'' then (fctx\<lparr>devType := DEVNODE_TYPE_AH2C\<rparr>, 0)
      else if name = ''c2h_0'' then (fctx\<lparr>devType := DEVNODE_TYPE_AC2H\<rparr>, 0)
      else if name = ''user'' then (fctx\<lparr>devType := DEVNODE_TYPE_USER\<rparr>, 0)
      else if name = ''control'' then (fctx\<lparr>devType := DEVNODE_TYPE_CONTROL\<rparr>, 0)
      else (fctx\<lparr>devType := ID_DEVNODE_UNKNOWN\<rparr>, index))"
  by (simp add: GetDevNodeType_def FileNameLUT_def ADMA_FILE_H2C_0_def ADMA_FILE_C2H_0_def
      ADMA_FILE_USER_def ADMA_FILE_CONTROL_def)

lemma open_refused_h2c:
  "\<not> enabled (engines adma 0 H2C) \<Longrightarrow>
   EvtDeviceFileCreate adma (Some ''h2c_0'') devNode =
     (devNode\<lparr>devType := DEVNODE_TYPE_AH2C\<rparr>, [WdfRequestComplete STATUS_INVALID_PARAMETER])"
  by (simp add: EvtDeviceFileCreate_def GetDevNodeType_eq open_AH2C_AC2H_def Let_def)

lemma open_refused_c2h:
  "\<not> enabled (engines adma 0 C2H) \<Longrightarrow>
   EvtDeviceFileCreate adma (Some ''c2h_0'') devNode =
     (devNode\<lparr>devType := DEVNODE_TYPE_AC2H\<rparr>, [WdfRequestComplete STATUS_INVALID_PARAMETER])"
  by (simp add: EvtDeviceFileCreate_def GetDevNodeType_eq open_AH2C_AC2H_def Let_def)

text \<open>
  The scenario of the specification, on a device with every engine disabled: open
  \<open>h2c_0\<close>, then write 4096 bytes. The only outcome the client gets is the open completed
  with \<open>STATUS_INVALID_PARAMETER\<close>, which is not \<open>STATUS_DEVICE_NOT_READY\<close>; the write is
  never dispatched.
\<close>

theorem disabled_engine_outcome_is_invalid_parameter:
  "\<not> enabled (engines adma_all_disabled 0 H2C)
   \<and> open_then_write fw_all_success adma_all_disabled ''h2c_0'' fresh_context
        \<lparr>DeviceOffset = 0, Length = 4096\<rparr> 4096 = [WdfRequestComplete STATUS_INVALID_PARAMETER]
   \<and> STATUS_INVALID_PARAMETER \<noteq> STATUS_DEVICE_NOT_READY"
proof -
  have d: "\<not> enabled (engines adma_all_disabled 0 H2C)"
    by (simp add: adma_all_disabled_def all_disabled_def disabled_engine_def)
  have t: "open_then_write fw_all_success adma_all_disabled ''h2c_0'' fresh_context
             \<lparr>DeviceOffset = 0, Length = 4096\<rparr> 4096 = [WdfRequestComplete STATUS_INVALID_PARAMETER]"
    using d by (simp add: open_refused_h2c open_then_write_def not_NT_SUCCESS_INVALID_PARAMETER)
  have n: "STATUS_INVALID_PARAMETER \<noteq> STATUS_DEVICE_NOT_READY"
    by (simp add: STATUS_INVALID_PARAMETER_def STATUS_DEVICE_NOT_READY_def)
  from d t n show ?thesis by simp
qed

text \<open>
  C3, as the code has it. An engine that is disabled is refused when its node is
  opened, each engine on its own account: while the H2C engine of channel 0 is
  disabled, opening \<open>h2c_0\<close> completes the open request with \<open>STATUS_INVALID_PARAMETER\<close>
  and binds neither engine nor queue to the node, and a client that opens the node and
  then writes gets this one completion and nothing else: the write reaches neither the
  dispatch nor the submission handler, so no transaction is created and no hardware is
  started. The same holds for \<open>c2h_0\<close> and a read while the C2H engine of channel 0 is
  disabled.
\<close>

theorem disabled_engine_refused_at_open:
  "(\<not> enabled (engines adma 0 H2C) \<longrightarrow>
      EvtDeviceFileCreate adma (Some ''h2c_0'') devNode =
        (devNode\<lparr>devType := DEVNODE_TYPE_AH2C\<rparr>, [WdfRequestComplete STATUS_INVALID_PARAMETER])
      \<and> open_then_write fw adma ''h2c_0'' devNode req len
          = [WdfRequestComplete STATUS_INVALID_PARAMETER])
   \<and> (\<not> enabled (engines adma 0 C2H) \<longrightarrow>
      EvtDeviceFileCreate adma (Some ''c2h_0'') devNode =
        (devNode\<lparr>devType := DEVNODE_TYPE_AC2H\<rparr>, [WdfRequestComplete STATUS_INVALID_PARAMETER])
      \<and> open_then_read fw ev adma ''c2h_0'' devNode req len
          = [WdfRequestComplete STATUS_INVALID_PARAMETER])"
  by (simp add: open_refused_h2c open_refused_c2h open_then_write_def open_then_read_def
      not_NT_SUCCESS_INVALID_PARAMETER)

theorem disabled_engine_refused_at_open_witness:
  "\<not> enabled (engines adma_h2c_disabled 0 H2C) \<and> enabled (engines adma_h2c_disabled 0 C2H)
   \<and> EvtDeviceFileCreate adma_h2c_disabled (Some ''h2c_0'') fresh_context =
       (\<lparr>devType = DEVNODE_TYPE_AH2C, u = NoResource, queue = None\<rparr>,
        [WdfRequestComplete STATUS_INVALID_PARAMETER])
   \<and> open_then_write fw_all_success adma_h2c_disabled ''h2c_0'' fresh_context
        \<lparr>DeviceOffset = 0, Length = 4096\<rparr> 4096 = [WdfRequestComplete STATUS_INVALID_PARAMETER]
   \<and> \<not> enabled (engines adma_all_disabled 0 C2H)
   \<and> open_then_read fw_all_success quiet_event adma_all_disabled ''c2h_0'' fresh_context
        \<lparr>DeviceOffset = 0, Length = 4096\<rparr> 4096 = [WdfRequestComplete STATUS_INVALID_PARAMETER]"
proof -
  have h: "\<not> enabled (engines adma_h2c_disabled 0 H2C)"
    by (simp add: adma_h2c_disabled_def h2c_disabled_only_def disabled_engine_def)
  have e: "enabled (engines adma_h2c_disabled 0 C2H)"
    by (simp add: adma_h2c_disabled_def h2c_disabled_only_def polling_engine_def)
  have c: "\<not> enabled (engines adma_all_disabled 0 C2H)"
    by (simp add: adma_all_disabled_def all_disabled_def disabled_engine_def)
  have f: "fresh_context\<lparr>devType := DEVNODE_TYPE_AH2C\<rparr>
             = \<lparr>devType = DEVNODE_TYPE_AH2C, u = NoResource, queue = None\<rparr>"
    by (simp add: fresh_context_def)
  show ?thesis
    using h e c
      disabled_engine_refused_at_open [of adma_h2c_disabled fresh_context fw_all_success
        "\<lparr>DeviceOffset = 0, Length = 4096\<rparr>" 4096]
      disabled_engine_refused_at_open [of adma_all_disabled fresh_context fw_all_success
        "\<lparr>DeviceOffset = 0, Length = 4096\<rparr>" 4096 quiet_event]
    by (simp only: f simp_thms)
qed

section \<open>Names of device nodes\<close>

text \<open>
  Whatever the strings of the table are, the loop assigns a kind of one of its entries
  or the unknown kind.
\<close>

lemma GetDevNodeType_loop_kind:
  "devType (fst (GetDevNodeType_loop lut name fctx index)) \<in> fst ` set lut \<union> {ID_DEVNODE_UNKNOWN}"
proof (induction lut)
  case Nil
  show ?case by simp
next
  case (Cons entry rest)
  obtain t wstr channel where e: "entry = (t, wstr, channel)" by (cases entry)
  show ?case
  proof (cases "name = wstr")
    case True
    with e show ?thesis by simp
  next
    case False
    with e Cons.IH show ?thesis by auto
  qed
qed

lemma GetDevNodeType_never_events:
  "devType (fst (GetDevNodeType name fctx index)) \<noteq> DEVNODE_TYPE_EVENTS"
proof -
  have "devType (fst (GetDevNodeType name fctx index))
          \<in> fst ` set FileNameLUT \<union> {ID_DEVNODE_UNKNOWN}"
    unfolding GetDevNodeType_def by (rule GetDevNodeType_loop_kind)
  then show ?thesis by (auto simp: FileNameLUT_def)
qed

text \<open>
  The names \<open>events_0\<close> and \<open>h2c_1\<close> are not in the table: both get the unknown kind.
\<close>

theorem events_name_is_unknown:
  "devType (fst (GetDevNodeType ''events_0'' fresh_context 0)) = ID_DEVNODE_UNKNOWN
   \<and> devType (fst (GetDevNodeType ''events_0'' fresh_context 0)) \<noteq> DEVNODE_TYPE_EVENTS
   \<and> devType (fst (GetDevNodeType ''h2c_1'' fresh_context 0)) = ID_DEVNODE_UNKNOWN"
  by (simp add: GetDevNodeType_eq)

text \<open>
  C7, as the code has it. The table has four names: \<open>h2c_0\<close> gets the H2C DMA kind
  \<open>DEVNODE_TYPE_AH2C\<close>, \<open>c2h_0\<close> the C2H DMA kind \<open>DEVNODE_TYPE_AC2H\<close>, \<open>user\<close> the user
  BAR kind and \<open>control\<close> the control BAR kind. Every other name, among them
  \<open>events_<n>\<close> and the channels \<open>h2c_<n>\<close>, \<open>c2h_<n>\<close> with n above 0, gets the unknown
  kind, and opening it completes the open request with \<open>STATUS_INVALID_PARAMETER\<close>,
  binding no resource.
\<close>

theorem node_kind_of_name:
  "devType (fst (GetDevNodeType name fctx index)) =
     (if name = ''h2c_0'' then DEVNODE_TYPE_AH2C
      else if name = ''c2h_0'' then DEVNODE_TYPE_AC2H
      else if name = ''user'' then DEVNODE_TYPE_USER
      else if name = ''control'' then DEVNODE_TYPE_CONTROL
      else ID_DEVNODE_UNKNOWN)
   \<and> (name \<notin> {''h2c_0'', ''c2h_0'', ''user'', ''control''} \<longrightarrow>
        EvtDeviceFileCreate adma (Some name) fctx =
          (fctx\<lparr>devType := ID_DEVNODE_UNKNOWN\<rparr>, [WdfRequestComplete STATUS_INVALID_PARAMETER]))"
  by (simp add: EvtDeviceFileCreate_def GetDevNodeType_eq)

theorem node_kind_of_name_witness:
  "''events_0'' \<notin> {''h2c_0'', ''c2h_0'', ''user'', ''control''}
   \<and> EvtDeviceFileCreate adma_all_disabled (Some ''events_0'') fresh_context =
       (\<lparr>devType = ID_DEVNODE_UNKNOWN, u = NoResource, queue = None\<rparr>,
        [WdfRequestComplete STATUS_INVALID_PARAMETER])"
proof -
  have n: "''events_0'' \<notin> {''h2c_0'', ''c2h_0'', ''user'', ''control''}" by simp
  show ?thesis
    using n node_kind_of_name [of "''events_0''" fresh_context 0 adma_all_disabled]
    by (simp add: fresh_context_def)
qed

section \<open>Access granularity\<close>

lemma spec_granularity_divides: "width_bytes (spec_granularity n) dvd n"
  by (simp add: spec_granularity_def)

lemma spec_granularity_widest:
  assumes "width_bytes w dvd n"
  shows "width_bytes w \<le> width_bytes (spec_granularity n)"
proof (cases w)
  case Width_UCHAR
  then show ?thesis by (simp add: spec_granularity_def)
next
  case Width_USHORT
  with assms show ?thesis by (simp add: spec_granularity_def)
next
  case Width_ULONG
  with assms show ?thesis by (simp add: spec_granularity_def)
qed

lemma size_t_mod_4: "((len :: size_t) mod 4 = 0) = (4 dvd unat len)"
proof -
  have "unat (len mod 4) = unat len mod 4" by (simp add: unat_mod)
  then have "(len mod 4 = 0) = (unat len mod 4 = 0)" by (metis unat_eq_zero)
  then show ?thesis by (simp add: dvd_eq_mod_eq_0)
qed

lemma size_t_mod_2: "((len :: size_t) mod 2 = 0) = (2 dvd unat len)"
proof -
  have "unat (len mod 2) = unat len mod 2" by (simp add: unat_mod)
  then have "(len mod 2 = 0) = (unat len mod 2 = 0)" by (metis unat_eq_zero)
  then show ?thesis by (simp add: dvd_eq_mod_eq_0)
qed

text \<open>
  The element count of a length below \<open>2^32\<close>: the cut to 32 bits loses nothing, so the
  count is the length divided by the unit.
\<close>

lemma ucast_small: "unat (len :: size_t) < 2 ^ 32 \<Longrightarrow> unat (ucast len :: ULONG) = unat len"
  by (simp add: unsigned_ucast_eq unsigned_take_bit_eq take_bit_nat_eq_self)

lemma ucast_back: "unat (ucast (x :: ULONG) :: size_t) = unat x"
  by (simp add: unsigned_ucast_eq unsigned_take_bit_eq take_bit_nat_eq_self
      order_less_trans [OF unsigned_less])

lemma element_count_4:
  assumes "unat (len :: size_t) < 2 ^ 32"
  shows "unat (element_count len 4) = unat len div 4"
proof -
  have a: "unat (ucast len :: ULONG) = unat len" using assms by (rule ucast_small)
  have b: "unat (ucast (ucast len :: ULONG) :: size_t) = unat len"
    using a by (simp add: ucast_back)
  have c: "unat ((ucast (ucast len :: ULONG) :: size_t) div 4) = unat len div 4"
    using b by (simp add: unat_div)
  have "unat len div 4 < 2 ^ 32" using assms by simp
  with c
  have "unat (ucast ((ucast (ucast len :: ULONG) :: size_t) div 4) :: ULONG) = unat len div 4"
    by (simp add: ucast_small)
  then show ?thesis by (simp add: element_count_def)
qed

lemma element_count_2:
  assumes "unat (len :: size_t) < 2 ^ 32"
  shows "unat (element_count len 2) = unat len div 2"
proof -
  have a: "unat (ucast len :: ULONG) = unat len" using assms by (rule ucast_small)
  have b: "unat (ucast (ucast len :: ULONG) :: size_t) = unat len"
    using a by (simp add: ucast_back)
  have c: "unat ((ucast (ucast len :: ULONG) :: size_t) div 2) = unat len div 2"
    using b by (simp add: unat_div)
  have "unat len div 2 < 2 ^ 32" using assms by simp
  with c
  have "unat (ucast ((ucast (ucast len :: ULONG) :: size_t) div 2) :: ULONG) = unat len div 2"
    by (simp add: ucast_small)
  then show ?thesis by (simp add: element_count_def)
qed

text \<open>
  C9. A BAR read and a BAR write of a non-zero length (the length of a read or write
  request is a 32-bit count, so it is below \<open>2^32\<close>) each make, once the request memory
  has been obtained, one register-buffer access at the request's offset, in units of 4
  bytes when 4 divides the length, else of 2 bytes when 2 divides it, else of single
  bytes: the widest unit that evenly divides the length. The number of units is the
  same in both directions, and units times unit size is the length, so the access
  covers the whole request.
\<close>

theorem bar_access_granularity:
  assumes "Length req \<noteq> 0" and "unat (Length req) < 2 ^ 32"
  shows "\<exists>n. unat n * width_bytes (spec_granularity (unat (Length req))) = unat (Length req)
          \<and> (NT_SUCCESS (outputMemoryStatus fw) \<longrightarrow>
               snd (ReadBarToRequest fw req) =
                 [READ_REGISTER_BUFFER (spec_granularity (unat (Length req))) (DeviceOffset req) n])
          \<and> (NT_SUCCESS (inputMemoryStatus fw) \<longrightarrow>
               snd (WriteBarFromRequest fw req) =
                 [WRITE_REGISTER_BUFFER (spec_granularity (unat (Length req))) (DeviceOffset req) n])"
proof (cases "4 dvd unat (Length req)")
  case True
  have "unat (element_count (Length req) 4) * 4 = unat (Length req)"
    using True assms(2) by (simp add: element_count_4)
  then show ?thesis using True assms(1)
    by (intro exI [of _ "element_count (Length req) 4"])
       (simp add: ReadBarToRequest_def WriteBarFromRequest_def Let_def size_t_mod_4
          spec_granularity_def)
next
  case False
  show ?thesis
  proof (cases "2 dvd unat (Length req)")
    case True
    have "unat (element_count (Length req) 2) * 2 = unat (Length req)"
      using True assms(2) by (simp add: element_count_2)
    then show ?thesis using True False assms(1)
      by (intro exI [of _ "element_count (Length req) 2"])
         (simp add: ReadBarToRequest_def WriteBarFromRequest_def Let_def size_t_mod_4
            size_t_mod_2 spec_granularity_def)
  next
    case odd: False
    have "unat (ucast (Length req) :: ULONG) = unat (Length req)"
      using assms(2) by (rule ucast_small)
    then show ?thesis using odd False assms(1)
      by (intro exI [of _ "ucast (Length req)"])
         (simp add: ReadBarToRequest_def WriteBarFromRequest_def Let_def size_t_mod_4
            size_t_mod_2 spec_granularity_def)
  qed
qed

theorem bar_access_granularity_witness:
  "Length \<lparr>DeviceOffset = 8, Length = 6\<rparr> \<noteq> 0
   \<and> unat (Length \<lparr>DeviceOffset = 8, Length = 6\<rparr>) < 2 ^ 32
   \<and> NT_SUCCESS (outputMemoryStatus fw_all_success)
   \<and> NT_SUCCESS (inputMemoryStatus fw_all_success)
   \<and> snd (ReadBarToRequest fw_all_success \<lparr>DeviceOffset = 8, Length = 6\<rparr>) =
        [READ_REGISTER_BUFFER Width_USHORT 8 3]
   \<and> snd (WriteBarFromRequest fw_all_success \<lparr>DeviceOffset = 8, Length = 6\<rparr>) =
        [WRITE_REGISTER_BUFFER Width_USHORT 8 3]"
proof -
  let ?r = "\<lparr>DeviceOffset = 8, Length = 6\<rparr> :: request"
  have l: "Length ?r \<noteq> 0" by simp
  have b: "unat (Length ?r) < 2 ^ 32" by simp
  have out: "NT_SUCCESS (outputMemoryStatus fw_all_success)"
    by (simp add: fw_all_success_def NT_SUCCESS_STATUS_SUCCESS)
  have inp: "NT_SUCCESS (inputMemoryStatus fw_all_success)"
    by (simp add: fw_all_success_def NT_SUCCESS_STATUS_SUCCESS)
  have g: "spec_granularity 6 = Width_USHORT"
    by (simp add: spec_granularity_def)
  from bar_access_granularity [OF l b, of fw_all_success] out inp g
  obtain n :: ULONG where n: "unat n * 2 = 6"
    and r: "snd (ReadBarToRequest fw_all_success ?r) = [READ_REGISTER_BUFFER Width_USHORT 8 n]"
    and w: "snd (WriteBarFromRequest fw_all_success ?r) = [WRITE_REGISTER_BUFFER Width_USHORT 8 n]"
    by auto
  from n have "unat n = unat (3 :: ULONG)" by simp
  then have "n = 3" by (simp only: word_unat_eq_iff)
  with r w l b out inp show ?thesis by simp
qed

section \<open>Properties of the event wait\<close>

lemma wait_after_clear:
  "KeWaitForSingleObject (KeClearEvent ev) arrives =
     (if arrives then STATUS_SUCCESS else STATUS_TIMEOUT)"
  by (simp add: KeWaitForSingleObject_def KeClearEvent_def)

text \<open>
  The wait routine on a request of one byte, path by path: the clear and the wait come
  first on every path; the value is copied and the request completed only when the
  output buffer was obtained, holds one byte and the copy succeeded; otherwise the
  failing status is handed back with nothing written.
\<close>

lemma EvtReadUserEvent_eq:
  "EvtReadUserEvent fw ev 1 =
     (if NT_SUCCESS (outputMemoryStatus fw) \<and> outputBufSize fw = 1
         \<and> NT_SUCCESS (copyFromBufferStatus fw)
      then (copyFromBufferStatus fw,
            [KeClearEvent_call,
             KeWaitForSingleObject_call
               (if signalWithinTimeout fw then STATUS_SUCCESS else STATUS_TIMEOUT),
             WdfMemoryCopyFromBuffer (signalWithinTimeout fw) 1,
             WdfRequestCompleteWithInformation (copyFromBufferStatus fw) 1])
      else (if \<not> NT_SUCCESS (outputMemoryStatus fw) then outputMemoryStatus fw
            else if outputBufSize fw \<noteq> 1 then STATUS_INVALID_PARAMETER
            else copyFromBufferStatus fw,
            [KeClearEvent_call,
             KeWaitForSingleObject_call
               (if signalWithinTimeout fw then STATUS_SUCCESS else STATUS_TIMEOUT)]))"
  by (simp add: EvtReadUserEvent_def Let_def wait_after_clear STATUS_SUCCESS_neq_TIMEOUT)

text \<open>
  A wait that times out and a copy into the output buffer that fails: the request is
  completed, with the status of the copy, and no value has been written.
\<close>

theorem failed_copy_writes_no_value:
  "EvtIoRead (fw_all_success\<lparr>copyFromBufferStatus := STATUS_INSUFFICIENT_RESOURCES\<rparr>)
     quiet_event events_node \<lparr>DeviceOffset = 0, Length = 1\<rparr> 1 =
     [KeClearEvent_call, KeWaitForSingleObject_call STATUS_TIMEOUT,
      WdfRequestComplete STATUS_INSUFFICIENT_RESOURCES]"
  by (simp add: EvtIoRead_def events_node_def EvtReadUserEvent_eq fw_all_success_def
      NT_SUCCESS_STATUS_SUCCESS not_NT_SUCCESS_INSUFFICIENT_RESOURCES)

text \<open>
  C8, as the code has it. A read of one byte on a user-event node first clears the
  event and then waits, so the result of the wait depends only on a signal arriving
  within the timeout and not on the state the event was in before the call. What
  follows is one of two outcomes. When the output buffer is obtained, holds one byte
  and the copy succeeds, exactly one byte-sized value is written, true when the signal
  arrived and false when the wait timed out, and the request is completed with the
  status of the copy and one byte of information. When one of these three steps fails,
  no value is written and the request is completed once, with the failing status.
\<close>

theorem event_wait_outcomes:
  assumes "devType fctx = DEVNODE_TYPE_EVENTS"
  shows "EvtIoRead fw ev fctx req 1 =
     [KeClearEvent_call,
      KeWaitForSingleObject_call (if signalWithinTimeout fw then STATUS_SUCCESS else STATUS_TIMEOUT)]
     @ (if NT_SUCCESS (outputMemoryStatus fw) \<and> outputBufSize fw = 1
           \<and> NT_SUCCESS (copyFromBufferStatus fw)
        then [WdfMemoryCopyFromBuffer (signalWithinTimeout fw) 1,
              WdfRequestCompleteWithInformation (copyFromBufferStatus fw) 1]
        else [WdfRequestComplete
                (if \<not> NT_SUCCESS (outputMemoryStatus fw) then outputMemoryStatus fw
                 else if outputBufSize fw \<noteq> 1 then STATUS_INVALID_PARAMETER
                 else copyFromBufferStatus fw)])"
  using assms
  by (simp add: EvtIoRead_def EvtReadUserEvent_eq not_NT_SUCCESS_INVALID_PARAMETER)

theorem event_wait_outcomes_witness:
  "devType events_node = DEVNODE_TYPE_EVENTS
   \<and> EvtIoRead fw_all_success \<lparr>signaled = True\<rparr> events_node \<lparr>DeviceOffset = 0, Length = 1\<rparr> 1 =
       [KeClearEvent_call, KeWaitForSingleObject_call STATUS_TIMEOUT,
        WdfMemoryCopyFromBuffer False 1,
        WdfRequestCompleteWithInformation STATUS_SUCCESS 1]"
proof -
  have k: "devType events_node = DEVNODE_TYPE_EVENTS" by (simp add: events_node_def)
  have v: "outputMemoryStatus fw_all_success = STATUS_SUCCESS" "outputBufSize fw_all_success = 1"
    "copyFromBufferStatus fw_all_success = STATUS_SUCCESS" "\<not> signalWithinTimeout fw_all_success"
    by (simp_all add: fw_all_success_def)
  show ?thesis
    using k event_wait_outcomes [OF k, of fw_all_success "\<lparr>signaled = True\<rparr>"
        "\<lparr>DeviceOffset = 0, Length = 1\<rparr>"]
    by (simp add: v NT_SUCCESS_STATUS_SUCCESS)
qed

section \<open>The status of an expired wait\<close>

lemma ReadBarToRequest_signal:
  "ReadBarToRequest (fw\<lparr>signalWithinTimeout := b\<rparr>) req = ReadBarToRequest fw req"
  by (simp add: ReadBarToRequest_def Let_def)

lemma EvtReadUserEvent_status_signal:
  "fst (EvtReadUserEvent (fw\<lparr>signalWithinTimeout := b\<rparr>) ev len) = fst (EvtReadUserEvent fw ev len)"
  by (simp add: EvtReadUserEvent_def Let_def)

lemma EvtReadUserEvent_statuses_signal:
  "completion_statuses (snd (EvtReadUserEvent (fw\<lparr>signalWithinTimeout := b\<rparr>) ev len))
     = completion_statuses (snd (EvtReadUserEvent fw ev len))"
  by (simp add: EvtReadUserEvent_def Let_def)

lemma completion_statuses_append:
  "completion_statuses (xs @ ys) = completion_statuses xs @ completion_statuses ys"
  by (induction xs rule: completion_statuses.induct) simp_all

lemma EvtIoRead_statuses_signal:
  "completion_statuses (EvtIoRead (fw\<lparr>signalWithinTimeout := b\<rparr>) ev fctx req len)
     = completion_statuses (EvtIoRead fw ev fctx req len)"
proof (cases "devType fctx")
  case DEVNODE_TYPE_EVENTS
  obtain s tr where a: "EvtReadUserEvent fw ev len = (s, tr)"
    by (cases "EvtReadUserEvent fw ev len")
  obtain s' tr' where a': "EvtReadUserEvent (fw\<lparr>signalWithinTimeout := b\<rparr>) ev len = (s', tr')"
    by (cases "EvtReadUserEvent (fw\<lparr>signalWithinTimeout := b\<rparr>) ev len")
  from a a' EvtReadUserEvent_status_signal [of b fw ev len] have s: "s' = s" by simp
  from a a' EvtReadUserEvent_statuses_signal [of b fw ev len]
  have t: "completion_statuses tr' = completion_statuses tr" by simp
  show ?thesis using DEVNODE_TYPE_EVENTS a a' s t
    by (simp add: EvtIoRead_def completion_statuses_append)
qed (simp_all add: EvtIoRead_def ReadBarToRequest_signal)

text \<open>
  A wait that expires while the output memory cannot be obtained: the request is
  completed with the failure status of that call and no byte is returned.
\<close>

theorem expired_wait_completes_with_failure:
  "\<not> signalWithinTimeout (fw_all_success\<lparr>outputMemoryStatus := STATUS_INSUFFICIENT_RESOURCES\<rparr>)
   \<and> EvtIoRead (fw_all_success\<lparr>outputMemoryStatus := STATUS_INSUFFICIENT_RESOURCES\<rparr>)
        quiet_event events_node \<lparr>DeviceOffset = 0, Length = 1\<rparr> 1 =
        [KeClearEvent_call, KeWaitForSingleObject_call STATUS_TIMEOUT,
         WdfRequestComplete STATUS_INSUFFICIENT_RESOURCES]
   \<and> \<not> NT_SUCCESS STATUS_INSUFFICIENT_RESOURCES"
  by (simp add: EvtIoRead_def events_node_def EvtReadUserEvent_eq fw_all_success_def
      NT_SUCCESS_STATUS_SUCCESS not_NT_SUCCESS_INSUFFICIENT_RESOURCES)

text \<open>
  C10, as the code has it. The expiry of the wait never reaches the caller as a
  status: whether or not the signal arrives, the read dispatch completes the request
  with the same statuses, because the result of the wait only chooses the value and is
  then overwritten. When the wait of a one-byte read on a user-event node expires, the
  request is completed with the status of the copy, a success, and one byte of
  information carrying false, provided the output buffer is obtained, holds one byte
  and the copy succeeds; when one of these steps fails, it is completed with that
  failing status and no byte.
\<close>

theorem expired_wait_status:
  "completion_statuses (EvtIoRead (fw\<lparr>signalWithinTimeout := b\<rparr>) ev fctx req len)
     = completion_statuses (EvtIoRead fw ev fctx req len)
   \<and> (devType fctx = DEVNODE_TYPE_EVENTS \<and> \<not> signalWithinTimeout fw \<longrightarrow>
        EvtIoRead fw ev fctx req 1 =
          [KeClearEvent_call, KeWaitForSingleObject_call STATUS_TIMEOUT]
          @ (if NT_SUCCESS (outputMemoryStatus fw) \<and> outputBufSize fw = 1
                \<and> NT_SUCCESS (copyFromBufferStatus fw)
             then [WdfMemoryCopyFromBuffer False 1,
                   WdfRequestCompleteWithInformation (copyFromBufferStatus fw) 1]
             else [WdfRequestComplete
                     (if \<not> NT_SUCCESS (outputMemoryStatus fw) then outputMemoryStatus fw
                      else if outputBufSize fw \<noteq> 1 then STATUS_INVALID_PARAMETER
                      else copyFromBufferStatus fw)]))"
proof (intro conjI impI)
  show "completion_statuses (EvtIoRead (fw\<lparr>signalWithinTimeout := b\<rparr>) ev fctx req len)
          = completion_statuses (EvtIoRead fw ev fctx req len)"
    by (rule EvtIoRead_statuses_signal)
next
  assume "devType fctx = DEVNODE_TYPE_EVENTS \<and> \<not> signalWithinTimeout fw"
  then show "EvtIoRead fw ev fctx req 1 =
          [KeClearEvent_call, KeWaitForSingleObject_call STATUS_TIMEOUT]
          @ (if NT_SUCCESS (outputMemoryStatus fw) \<and> outputBufSize fw = 1
                \<and> NT_SUCCESS (copyFromBufferStatus fw)
             then [WdfMemoryCopyFromBuffer False 1,
                   WdfRequestCompleteWithInformation (copyFromBufferStatus fw) 1]
             else [WdfRequestComplete
                     (if \<not> NT_SUCCESS (outputMemoryStatus fw) then outputMemoryStatus fw
                      else if outputBufSize fw \<noteq> 1 then STATUS_INVALID_PARAMETER
                      else copyFromBufferStatus fw)])"
    by (simp add: EvtIoRead_def EvtReadUserEvent_eq not_NT_SUCCESS_INVALID_PARAMETER)
qed

theorem expired_wait_status_witness:
  "devType events_node = DEVNODE_TYPE_EVENTS \<and> \<not> signalWithinTimeout fw_all_success
   \<and> EvtIoRead fw_all_success quiet_event events_node \<lparr>DeviceOffset = 0, Length = 1\<rparr> 1 =
       [KeClearEvent_call, KeWaitForSingleObject_call STATUS_TIMEOUT,
        WdfMemoryCopyFromBuffer False 1,
        WdfRequestCompleteWithInformation STATUS_SUCCESS 1]
   \<and> completion_statuses
        (EvtIoRead (fw_all_success\<lparr>signalWithinTimeout := True\<rparr>) quiet_event events_node
           \<lparr>DeviceOffset = 0, Length = 1\<rparr> 1) = [STATUS_SUCCESS]"
proof -
  have k: "devType events_node = DEVNODE_TYPE_EVENTS" by (simp add: events_node_def)
  have t: "\<not> signalWithinTimeout fw_all_success" by (simp add: fw_all_success_def)
  have v: "outputMemoryStatus fw_all_success = STATUS_SUCCESS" "outputBufSize fw_all_success = 1"
    "copyFromBufferStatus fw_all_success = STATUS_SUCCESS"
    by (simp_all add: fw_all_success_def)
  show ?thesis
    using k t
      expired_wait_status [of True fw_all_success quiet_event events_node
        "\<lparr>DeviceOffset = 0, Length = 1\<rparr>" 1]
    by (simp add: v NT_SUCCESS_STATUS_SUCCESS)
qed

section \<open>Validation of BAR accesses\<close>

text \<open>
  \<open>ValidateBarParams\<close> as written accepts an access exactly when the length is not
  zero, the BAR index is below the number of BARs and the sum of offset and length,
  taken in \<open>size_t\<close>, is below the BAR's length; every rejection has the status
  \<open>STATUS_INVALID_DEVICE_REQUEST\<close>.
\<close>

lemma ValidateBarParams_cases:
  "ValidateBarParams numBars barLength nBar offset len =
     (if len \<noteq> 0 \<and> nBar < numBars \<and> offset + len < barLength nBar
      then STATUS_SUCCESS else STATUS_INVALID_DEVICE_REQUEST)"
  by (auto simp: ValidateBarParams_def)

text \<open>
  C5. The read dispatch hands a BAR node's request to \<open>ReadBarToRequest\<close>, which tests
  the length against zero only; \<open>ValidateBarParams\<close> is called from nowhere. A read of
  4 bytes at offset 0x10000 of a 64 KiB BAR, which \<open>ValidateBarParams\<close> rejects, is
  therefore performed and completed with \<open>STATUS_SUCCESS\<close> and 4 bytes.
\<close>

theorem bar_read_past_end_is_performed:
  "EvtIoRead fw_all_success quiet_event control_node \<lparr>DeviceOffset = 0x10000, Length = 4\<rparr> 4 =
     [READ_REGISTER_BUFFER Width_ULONG 0x10000 1,
      WdfRequestCompleteWithInformation STATUS_SUCCESS 4]
   \<and> ValidateBarParams 1 bar_64K 0 0x10000 4 = STATUS_INVALID_DEVICE_REQUEST"
  by (simp add: EvtIoRead_def control_node_def ReadBarToRequest_def fw_all_success_def
      NT_SUCCESS_STATUS_SUCCESS element_count_def ValidateBarParams_def bar_64K_def)

section \<open>The cancel callback on its own\<close>

text \<open>
  Run by itself, \<open>EvtCancelDma\<close> stops the engine, releases the transaction once and
  completes the request once with \<open>STATUS_CANCELLED\<close>, whatever
  \<open>WdfRequestUnmarkCancelable\<close> returned. The completion callback it may run against is
  not part of this file, and an interleaving of the two is outside this sequential
  model.
\<close>

lemma EvtCancelDma_alone:
  "releases (EvtCancelDma fw) = 1 \<and> completions (EvtCancelDma fw) = 1
   \<and> last (EvtCancelDma fw) = WdfRequestComplete STATUS_CANCELLED"
  by (simp add: EvtCancelDma_def releases_def completions_def)

end
